theory Spec2Isabelle
  imports Complex_Main "HOL-Library.Sublist"
begin

section \<open>JavaScript values used by the server\<close>

text \<open>
  Strings are character lists. \<open>s.includes(p)\<close> is \<open>sublist p s\<close> and
  \<open>s.startsWith(p)\<close> is \<open>prefix p s\<close>; both are executable.
\<close>

definition str_includes :: "string \<Rightarrow> string \<Rightarrow> bool" where
  "str_includes s p = sublist p s"

definition startsWith :: "string \<Rightarrow> string \<Rightarrow> bool" where
  "startsWith s p = prefix p s"

text \<open>\<open>toLowerCase\<close> on the ASCII letters; every other character is kept.\<close>

definition lower_char :: "char \<Rightarrow> char" where
  "lower_char c =
     (case map_of (zip ''ABCDEFGHIJKLMNOPQRSTUVWXYZ'' ''abcdefghijklmnopqrstuvwxyz'') c of
        Some d \<Rightarrow> d
      | None \<Rightarrow> c)"

definition toLowerCase :: "string \<Rightarrow> string" where
  "toLowerCase s = map lower_char s"

text \<open>\<open>trim\<close> removes blanks, tabs and line breaks at both ends.\<close>

definition is_space :: "char \<Rightarrow> bool" where
  "is_space c = (c \<in> set [CHR '' '', CHR 0x09, CHR 0x0A, CHR 0x0B, CHR 0x0C, CHR 0x0D])"

definition trim :: "string \<Rightarrow> string" where
  "trim s = rev (dropWhile is_space (rev (dropWhile is_space s)))"

text \<open>Decimal printing of an integer, as a template literal prints a whole number.\<close>

definition digit_char :: "nat \<Rightarrow> char" where
  "digit_char d = ''0123456789'' ! d"

fun string_of_nat :: "nat \<Rightarrow> string" where
  "string_of_nat n =
     (if n < 10 then [digit_char n]
      else string_of_nat (n div 10) @ [digit_char (n mod 10)])"

declare string_of_nat.simps [simp del]

definition string_of_int :: "int \<Rightarrow> string" where
  "string_of_int i = (if i < 0 then CHR ''-'' # string_of_nat (nat (- i)) else string_of_nat (nat i))"

text \<open>
  A JavaScript number is a real number or \<open>NaN\<close>. The arithmetic is exact; the
  rounding of IEEE doubles is not part of the model.
\<close>

datatype number = Num real | NaN

fun num_add :: "number \<Rightarrow> number \<Rightarrow> number" where
  "num_add (Num a) (Num b) = Num (a + b)"
| "num_add _ _ = NaN"

fun num_mul :: "number \<Rightarrow> number \<Rightarrow> number" where
  "num_mul (Num a) (Num b) = Num (a * b)"
| "num_mul _ _ = NaN"

text \<open>\<open>Math.round(x)\<close> is the integer \<open>\<lfloor>x + 1/2\<rfloor>\<close>.\<close>

definition Math_round :: "real \<Rightarrow> int" where
  "Math_round x = \<lfloor>x + 1 / 2\<rfloor>"

subsection \<open>Thrown values\<close>

datatype ErrorCategory =
  AUTH_ERROR | RATE_LIMIT | CONTENT_BLOCKED | SAFETY_BLOCK | TIMEOUT | API_ERROR | VALIDATION_ERROR

fun category_name :: "ErrorCategory \<Rightarrow> string" where
  "category_name AUTH_ERROR = ''AUTH_ERROR''"
| "category_name RATE_LIMIT = ''RATE_LIMIT''"
| "category_name CONTENT_BLOCKED = ''CONTENT_BLOCKED''"
| "category_name SAFETY_BLOCK = ''SAFETY_BLOCK''"
| "category_name TIMEOUT = ''TIMEOUT''"
| "category_name API_ERROR = ''API_ERROR''"
| "category_name VALIDATION_ERROR = ''VALIDATION_ERROR''"

text \<open>
  What a \<open>catch\<close> block can receive: an \<open>Error\<close> with its message and the optional
  numeric fields \<open>status\<close> and \<open>statusCode\<close> (the client library sets \<open>status\<close>), an
  \<open>MCPError\<close> built by \<open>new MCPError(category, message, statusCode)\<close>, or any other
  value \<open>v\<close>, kept as \<open>String(v)\<close>.
\<close>

datatype thrown =
    Error string "int option" "int option"
  | MCPError ErrorCategory string "int option"
  | Thrown string

text \<open>\<open>error.message\<close>; the constructor of \<open>MCPError\<close> passes
  \<open>`${category}: ${message}`\<close> to \<open>Error\<close>.\<close>

fun message_of :: "thrown \<Rightarrow> string option" where
  "message_of (Error m _ _) = Some m"
| "message_of (MCPError c m _) = Some (category_name c @ '': '' @ m)"
| "message_of (Thrown _) = None"

text \<open>\<open>error instanceof Error ? error.message : String(error)\<close>\<close>

fun message_or_string :: "thrown \<Rightarrow> string" where
  "message_or_string (Error m _ _) = m"
| "message_or_string (MCPError c m _) = category_name c @ '': '' @ m"
| "message_or_string (Thrown s) = s"

fun status_of :: "thrown \<Rightarrow> int option" where
  "status_of (Error _ s _) = s"
| "status_of _ = None"

fun statusCode_of :: "thrown \<Rightarrow> int option" where
  "statusCode_of (Error _ _ c) = c"
| "statusCode_of (MCPError _ _ c) = c"
| "statusCode_of (Thrown _) = None"

fun category_of :: "thrown \<Rightarrow> ErrorCategory option" where
  "category_of (MCPError c _ _) = Some c"
| "category_of _ = None"

text \<open>\<open>error.message?.includes(p)\<close> and \<open>error.message?.startsWith(p)\<close>: false
  when there is no message.\<close>

definition message_includes :: "thrown \<Rightarrow> string \<Rightarrow> bool" where
  "message_includes e p = (case message_of e of None \<Rightarrow> False | Some m \<Rightarrow> str_includes m p)"

definition message_startsWith :: "thrown \<Rightarrow> string \<Rightarrow> bool" where
  "message_startsWith e p = (case message_of e of None \<Rightarrow> False | Some m \<Rightarrow> startsWith m p)"

section \<open>types.ts: the error classifier\<close>

text \<open>\<open>error.status || error.statusCode\<close>: a status of 0 is falsy.\<close>

definition status_or_statusCode :: "thrown \<Rightarrow> int option" where
  "status_or_statusCode e =
     (case status_of e of
        Some s \<Rightarrow> if s \<noteq> 0 then Some s else statusCode_of e
      | None \<Rightarrow> statusCode_of e)"

definition categorizeError :: "thrown \<Rightarrow> thrown" where
  "categorizeError error =
     (let message = message_or_string error;
          status = status_or_statusCode error
      in if status = Some 401 \<or> str_includes message ''API key'' \<or> str_includes message ''unauthorized''
            \<or> str_includes message ''Incorrect API key''
         then MCPError AUTH_ERROR ''Invalid or missing OpenAI API key'' status
         else if status = Some 429 \<or> str_includes message ''rate'' \<or> str_includes message ''quota''
            \<or> str_includes message ''too many requests''
         then MCPError RATE_LIMIT
                ''OpenAI API rate limit or quota exceeded. Please wait and retry.'' status
         else if str_includes message ''safety'' \<or> str_includes message ''content_policy''
         then MCPError SAFETY_BLOCK ''Content was blocked by OpenAI safety filters'' status
         else if str_includes message ''blocked'' \<or> str_includes message ''content policy''
            \<or> str_includes message ''moderation''
         then MCPError CONTENT_BLOCKED ''Request blocked due to content policy'' status
         else if str_includes message ''TIMEOUT'' \<or> str_includes message ''timed out''
         then MCPError TIMEOUT message None
         else MCPError API_ERROR message status)"

text \<open>
  The rules of \<open>categorizeError\<close> as an ordered list: the first rule whose signal is
  present decides, and \<open>API_ERROR\<close> is the default. The signals of each rule are the ones
  the source tests.
\<close>

definition auth_signal :: "thrown \<Rightarrow> bool" where
  "auth_signal e =
     (status_or_statusCode e = Some 401
      \<or> sublist ''API key'' (message_or_string e)
      \<or> sublist ''unauthorized'' (message_or_string e)
      \<or> sublist ''Incorrect API key'' (message_or_string e))"

definition rate_signal :: "thrown \<Rightarrow> bool" where
  "rate_signal e =
     (status_or_statusCode e = Some 429
      \<or> sublist ''rate'' (message_or_string e)
      \<or> sublist ''quota'' (message_or_string e)
      \<or> sublist ''too many requests'' (message_or_string e))"

definition safety_signal :: "thrown \<Rightarrow> bool" where
  "safety_signal e =
     (sublist ''safety'' (message_or_string e) \<or> sublist ''content_policy'' (message_or_string e))"

definition content_signal :: "thrown \<Rightarrow> bool" where
  "content_signal e =
     (sublist ''blocked'' (message_or_string e)
      \<or> sublist ''content policy'' (message_or_string e)
      \<or> sublist ''moderation'' (message_or_string e))"

definition timeout_signal :: "thrown \<Rightarrow> bool" where
  "timeout_signal e =
     (sublist ''TIMEOUT'' (message_or_string e) \<or> sublist ''timed out'' (message_or_string e))"

definition classifier_rules :: "((thrown \<Rightarrow> bool) \<times> ErrorCategory) list" where
  "classifier_rules =
     [(auth_signal, AUTH_ERROR), (rate_signal, RATE_LIMIT), (safety_signal, SAFETY_BLOCK),
      (content_signal, CONTENT_BLOCKED), (timeout_signal, TIMEOUT)]"

fun first_match :: "((thrown \<Rightarrow> bool) \<times> ErrorCategory) list \<Rightarrow> thrown \<Rightarrow> ErrorCategory" where
  "first_match [] e = API_ERROR"
| "first_match ((signal, c) # rules) e = (if signal e then c else first_match rules e)"

section \<open>pricing.ts: the cost model\<close>

record TokenPricing =
  input_price :: real
  output_price :: real

record CostInfo =
  inputCost :: number
  outputCost :: number
  totalCost :: number
  currency :: string
  estimated :: bool

definition OPENAI_PRICING :: "(string \<times> TokenPricing) list" where
  "OPENAI_PRICING =
     [(''gpt-5.2'', \<lparr>input_price = 1.75, output_price = 14\<rparr>),
      (''gpt-5.2-pro'', \<lparr>input_price = 21, output_price = 168\<rparr>),
      (''gpt-5.2-chat-latest'', \<lparr>input_price = 1.75, output_price = 14\<rparr>),
      (''o3-deep-research'', \<lparr>input_price = 10, output_price = 40\<rparr>),
      (''o4-mini-deep-research'', \<lparr>input_price = 2, output_price = 8\<rparr>)]"

definition DEFAULT_PRICING :: TokenPricing where
  "DEFAULT_PRICING = \<lparr>input_price = 21, output_price = 168\<rparr>"

text \<open>
  \<open>OPENAI_PRICING\<close> is an object literal, so \<open>OPENAI_PRICING[model]\<close> is a property
  read: a key the literal does not hold is looked up in \<open>Object.prototype\<close>, whose
  properties (the standard ones and those of Annex B) are all functions or objects, hence
  truthy, and none of them has a property \<open>input\<close> or \<open>output\<close>.
\<close>

definition Object_prototype_keys :: "string list" where
  "Object_prototype_keys =
     [''constructor'', ''hasOwnProperty'', ''isPrototypeOf'', ''propertyIsEnumerable'',
      ''toLocaleString'', ''toString'', ''valueOf'', ''__proto__'', ''__defineGetter__'',
      ''__defineSetter__'', ''__lookupGetter__'', ''__lookupSetter__'']"

datatype 'a property = Own 'a | Inherited | Undefined

definition get_property :: "(string \<times> 'a) list \<Rightarrow> string \<Rightarrow> 'a property" where
  "get_property obj key =
     (case map_of obj key of
        Some v \<Rightarrow> Own v
      | None \<Rightarrow> if key \<in> set Object_prototype_keys then Inherited else Undefined)"

text \<open>\<open>Math.round(value * 1_000_000) / 1_000_000\<close>; \<open>Math.round(NaN)\<close> is \<open>NaN\<close>.\<close>

fun roundToMicro :: "number \<Rightarrow> number" where
  "roundToMicro (Num v) = Num (real_of_int (Math_round (v * 1000000)) / 1000000)"
| "roundToMicro NaN = NaN"

text \<open>
  \<open>calculateCost(model, promptTokens, completionTokens)\<close>. \<open>estimated = !pricing\<close> is
  true only when the property read gave \<open>undefined\<close>; \<open>pricing || DEFAULT_PRICING\<close>
  keeps every truthy value, and the price read from an inherited property is
  \<open>undefined\<close>, which makes the product \<open>NaN\<close>.
\<close>

definition calculateCost :: "string \<Rightarrow> int \<Rightarrow> int \<Rightarrow> CostInfo" where
  "calculateCost model promptTokens completionTokens =
     (let pricing = get_property OPENAI_PRICING model;
          estimated = (pricing = Undefined);
          effective_input = (case pricing of Own p \<Rightarrow> Num (input_price p) | Inherited \<Rightarrow> NaN
                             | Undefined \<Rightarrow> Num (input_price DEFAULT_PRICING));
          effective_output = (case pricing of Own p \<Rightarrow> Num (output_price p) | Inherited \<Rightarrow> NaN
                             | Undefined \<Rightarrow> Num (output_price DEFAULT_PRICING));
          inputCost = num_mul (Num (real_of_int promptTokens / 1000000)) effective_input;
          outputCost = num_mul (Num (real_of_int completionTokens / 1000000)) effective_output;
          totalCost = num_add inputCost outputCost
      in \<lparr>inputCost = roundToMicro inputCost, outputCost = roundToMicro outputCost,
          totalCost = roundToMicro totalCost, currency = ''USD'', estimated = estimated\<rparr>)"

text \<open>The price \<open>calculateCost\<close> applies to a model, as \<open>getPricing\<close> reports it.\<close>

definition effectivePricing :: "string \<Rightarrow> TokenPricing option" where
  "effectivePricing model =
     (case get_property OPENAI_PRICING model of
        Own p \<Rightarrow> Some p
      | Inherited \<Rightarrow> None
      | Undefined \<Rightarrow> Some DEFAULT_PRICING)"

section \<open>cost-tracker.ts: the ledger\<close>

record CostEntry =
  timestamp :: string
  entry_model :: string
  operation :: string
  entry_inputCost :: number
  entry_outputCost :: number
  entry_totalCost :: number
  entry_estimated :: bool
  promptTokens :: "int option"
  completionTokens :: "int option"

text \<open>
  The tracker holds the in-memory entries and the path of \<open>costs.jsonl\<close> (\<open>null\<close> when
  persistence is off). The disk maps a path to the lines of the file, one serialised
  entry per line; \<open>writable\<close> says whether \<open>appendFileSync\<close> succeeds on a path.
\<close>

record CostTracker =
  entries :: "CostEntry list"
  costsFile :: "string option"

record disk =
  files :: "string \<rightharpoonup> CostEntry list"
  writable :: "string \<Rightarrow> bool"

text \<open>\<open>appendFileSync(path, line)\<close>: creates the file when it is missing; throws when the
  path cannot be written.\<close>

definition appendFileSync :: "disk \<Rightarrow> string \<Rightarrow> CostEntry \<Rightarrow> disk option" where
  "appendFileSync d path line =
     (if writable d path
      then Some (d\<lparr>files := (files d)(path \<mapsto> (case files d path of None \<Rightarrow> [] | Some ls \<Rightarrow> ls) @ [line])\<rparr>)
      else None)"

text \<open>\<open>trackCost\<close>: push the entry, then append it to the file; a failed write is
  swallowed.\<close>

definition trackCost :: "CostTracker \<times> disk \<Rightarrow> CostEntry \<Rightarrow> CostTracker \<times> disk" where
  "trackCost st entry =
     (let t = (fst st)\<lparr>entries := entries (fst st) @ [entry]\<rparr>
      in case costsFile t of
           None \<Rightarrow> (t, snd st)
         | Some path \<Rightarrow>
             (case appendFileSync (snd st) path entry of
                Some d \<Rightarrow> (t, d)
              | None \<Rightarrow> (t, snd st)))"

text \<open>\<open>reset\<close>: \<open>this.entries = []\<close> and nothing else.\<close>

definition reset :: "CostTracker \<times> disk \<Rightarrow> CostTracker \<times> disk" where
  "reset st = ((fst st)\<lparr>entries := []\<rparr>, snd st)"

record CostSummary =
  sum_totalCost :: number
  callCount :: nat
  estimatedCosts :: number
  since :: string

text \<open>
  \<open>getSummary\<close>: the sums run over the entries in order and are rounded at the end;
  \<open>now\<close> is \<open>new Date().toISOString()\<close>, used when there is no first entry or its
  timestamp is empty. The per-model and per-operation buckets of the summary are not
  modelled.
\<close>

definition getSummary :: "CostTracker \<Rightarrow> string \<Rightarrow> CostSummary" where
  "getSummary t now =
     (let es = entries t;
          total = foldl (\<lambda>acc e. num_add acc (entry_totalCost e)) (Num 0) es;
          est = foldl (\<lambda>acc e. if entry_estimated e then num_add acc (entry_totalCost e) else acc)
                  (Num 0) es
      in \<lparr>sum_totalCost = roundToMicro total,
          callCount = length es,
          estimatedCosts = roundToMicro est,
          since = (case es of [] \<Rightarrow> now | e # _ \<Rightarrow> if timestamp e = [] then now else timestamp e)\<rparr>)"

section \<open>retry.ts: the retry executor\<close>

record RetryOptions =
  maxRetries :: "int option"
  initialDelayMs :: "real option"
  maxDelayMs :: "real option"
  backoffMultiplier :: "real option"
  retryableErrors :: "string list option"

record retry_policy =
  p_maxRetries :: int
  p_initialDelayMs :: real
  p_maxDelayMs :: real
  p_backoffMultiplier :: real
  p_retryableErrors :: "string list"

definition DEFAULT_RETRY_OPTIONS :: retry_policy where
  "DEFAULT_RETRY_OPTIONS =
     \<lparr>p_maxRetries = 3, p_initialDelayMs = 1000, p_maxDelayMs = 30000, p_backoffMultiplier = 2,
      p_retryableErrors =
        [''RATE_LIMIT'', ''429'', ''503'', ''502'', ''ECONNRESET'', ''ETIMEDOUT'', ''ENOTFOUND'',
         ''temporarily unavailable'', ''too many requests'']\<rparr>"

text \<open>\<open>{ ...DEFAULT_RETRY_OPTIONS, ...options }\<close>: a field the caller gives replaces the
  default.\<close>

definition merge_options :: "RetryOptions \<Rightarrow> retry_policy" where
  "merge_options options =
     \<lparr>p_maxRetries = (case maxRetries options of Some v \<Rightarrow> v | None \<Rightarrow> p_maxRetries DEFAULT_RETRY_OPTIONS),
      p_initialDelayMs =
        (case initialDelayMs options of Some v \<Rightarrow> v | None \<Rightarrow> p_initialDelayMs DEFAULT_RETRY_OPTIONS),
      p_maxDelayMs = (case maxDelayMs options of Some v \<Rightarrow> v | None \<Rightarrow> p_maxDelayMs DEFAULT_RETRY_OPTIONS),
      p_backoffMultiplier =
        (case backoffMultiplier options of Some v \<Rightarrow> v | None \<Rightarrow> p_backoffMultiplier DEFAULT_RETRY_OPTIONS),
      p_retryableErrors =
        (case retryableErrors options of Some v \<Rightarrow> v | None \<Rightarrow> p_retryableErrors DEFAULT_RETRY_OPTIONS)\<rparr>"

definition isRetryable :: "thrown \<Rightarrow> string list \<Rightarrow> bool" where
  "isRetryable error patterns =
     (let message = message_or_string error
      in list_ex (\<lambda>pattern. str_includes (toLowerCase message) (toLowerCase pattern)) patterns)"

text \<open>
  One run of \<open>withRetry\<close>: how often \<open>fn\<close> was invoked, the delays slept between the
  attempts, and the value returned or the error thrown.
\<close>

record 'a retry_run =
  calls :: nat
  sleeps :: "real list"
  outcome :: "thrown + 'a"

text \<open>
  The \<open>for\<close> loop of \<open>withRetry\<close> from \<open>attempt\<close> on. \<open>fn k\<close> is what the \<open>k\<close>-th
  invocation of the wrapped operation does (counted from 0): it returns a value or
  throws. When the loop body never runs, \<open>throw lastError\<close> after the loop is reached.
\<close>

function withRetry_loop ::
  "(nat \<Rightarrow> thrown + 'a) \<Rightarrow> retry_policy \<Rightarrow> nat \<Rightarrow> real \<Rightarrow> thrown \<Rightarrow> 'a retry_run" where
  "withRetry_loop fn opts attempt delay lastError =
     (if int attempt \<le> p_maxRetries opts
      then (case fn attempt of
              Inr result \<Rightarrow> \<lparr>calls = 1, sleeps = [], outcome = Inr result\<rparr>
            | Inl error \<Rightarrow>
                if int attempt = p_maxRetries opts \<or> \<not> isRetryable error (p_retryableErrors opts)
                then \<lparr>calls = 1, sleeps = [], outcome = Inl error\<rparr>
                else (let run = withRetry_loop fn opts (Suc attempt)
                                  (min (delay * p_backoffMultiplier opts) (p_maxDelayMs opts)) error
                      in run\<lparr>calls := Suc (calls run), sleeps := delay # sleeps run\<rparr>))
      else \<lparr>calls = 0, sleeps = [], outcome = Inl lastError\<rparr>)"
  by pat_completeness auto
termination
  by (relation "measure (\<lambda>(fn, opts, attempt, delay, lastError). nat (p_maxRetries opts + 1 - int attempt))")
     auto

declare withRetry_loop.simps [simp del]

definition withRetry :: "(nat \<Rightarrow> thrown + 'a) \<Rightarrow> RetryOptions \<Rightarrow> 'a retry_run" where
  "withRetry fn options =
     (let opts = merge_options options
      in withRetry_loop fn opts 0 (p_initialDelayMs opts) (Thrown ''undefined''))"

section \<open>The remote service\<close>

record raw_usage =
  input_tokens :: "int option"
  output_tokens :: "int option"
  reasoning_tokens :: "int option"

text \<open>What \<open>client.responses.create\<close> and \<open>client.responses.retrieve\<close> resolve to: the
  fields the providers read. A missing status behaves like any unrecognised one.\<close>

record response =
  resp_id :: "string option"
  resp_status :: string
  output_text :: "string option"
  resp_usage :: "raw_usage option"
  error_message :: "string option"

record Usage =
  u_promptTokens :: "int option"
  u_completionTokens :: "int option"
  u_totalTokens :: int
  u_reasoningTokens :: "int option"

text \<open>\<open>x || 0\<close> on an optional token count.\<close>

definition or_zero :: "int option \<Rightarrow> int" where
  "or_zero x = (case x of None \<Rightarrow> 0 | Some n \<Rightarrow> n)"

text \<open>
  The effects a provider has on its surroundings, in the order they happen: the three
  calls of the client (\<open>responses.create\<close>, \<open>responses.retrieve\<close>, \<open>responses.cancel\<close>),
  a sleep of so many milliseconds, and a warning written to the log. Debug and
  information log calls change nothing else and are left out.
\<close>

datatype action =
    Create string string
  | Retrieve string
  | Cancel string
  | Sleep int
  | Warn string

section \<open>providers/deep-research-provider.ts\<close>

definition DEFAULT_TIMEOUT_MS :: int where
  "DEFAULT_TIMEOUT_MS = 30 * 60 * 1000"

definition DEFAULT_POLL_INTERVAL_MS :: int where
  "DEFAULT_POLL_INTERVAL_MS = 10 * 1000"

record poll_result =
  pr_text :: string
  pr_status :: string
  pr_usage :: "Usage option"

text \<open>The \<open>catch\<close> block of \<open>startResearch\<close>.\<close>

definition startResearch_catch :: "thrown \<Rightarrow> thrown" where
  "startResearch_catch error =
     (if message_includes error ''API key'' \<or> message_includes error ''Incorrect API key''
         \<or> status_of error = Some 401
      then Error ''AUTH_ERROR: Invalid or missing OpenAI API key'' None None
      else if status_of error = Some 429
      then Error ''RATE_LIMIT: OpenAI API rate limit exceeded. Please wait and retry.'' None None
      else Error (''API_ERROR: '' @ (case message_of error of None \<Rightarrow> ''undefined'' | Some m \<Rightarrow> m))
             None None)"

text \<open>\<open>startResearch\<close>, given what the one \<open>create\<close> call does: the identifier of the
  job, or the error of the \<open>catch\<close> block. A missing or empty identifier is thrown inside
  the \<open>try\<close> and so passes through the same block.\<close>

definition startResearch :: "thrown + response \<Rightarrow> thrown + string" where
  "startResearch created =
     (case created of
        Inl error \<Rightarrow> Inl (startResearch_catch error)
      | Inr response \<Rightarrow>
          (case resp_id response of
             None \<Rightarrow> Inl (startResearch_catch (Error ''API_ERROR: No response ID returned from API'' None None))
           | Some responseId \<Rightarrow>
               if responseId = []
               then Inl (startResearch_catch (Error ''API_ERROR: No response ID returned from API'' None None))
               else Inr responseId))"

text \<open>The body of the \<open>try\<close> in \<open>pollForCompletion\<close> after the retrieval: it returns a
  result (\<open>Some\<close>), throws, or falls through to the sleep (\<open>None\<close>).\<close>

definition extract_usage :: "raw_usage option \<Rightarrow> Usage option" where
  "extract_usage rawUsage =
     map_option (\<lambda>u. \<lparr>u_promptTokens = input_tokens u, u_completionTokens = output_tokens u,
                       u_totalTokens = or_zero (input_tokens u) + or_zero (output_tokens u),
                       u_reasoningTokens = None\<rparr>) rawUsage"

definition poll_try :: "response \<Rightarrow> thrown + poll_result option" where
  "poll_try response =
     (if resp_status response = ''completed''
      then (let text = (case output_text response of None \<Rightarrow> [] | Some t \<Rightarrow> t)
            in if text = []
               then Inl (Error ''API_ERROR: Research completed but no output text found'' None None)
               else Inr (Some \<lparr>pr_text = text, pr_status = ''completed'',
                                pr_usage = extract_usage (resp_usage response)\<rparr>))
      else if resp_status response = ''failed''
      then Inl (Error (''RESEARCH_FAILED: '' @
                  (case error_message response of
                     None \<Rightarrow> ''Research failed with unknown error''
                   | Some m \<Rightarrow> if m = [] then ''Research failed with unknown error'' else m))
                None None)
      else Inr None)"

text \<open>The test of the \<open>catch\<close> block: an error of the provider's own is thrown again.\<close>

definition own_error :: "thrown \<Rightarrow> bool" where
  "own_error error =
     (message_startsWith error ''TIMEOUT:'' \<or> message_startsWith error ''RESEARCH_FAILED:''
      \<or> message_startsWith error ''API_ERROR:'')"

definition timeout_message :: "int \<Rightarrow> string \<Rightarrow> string" where
  "timeout_message elapsed responseId =
     ''TIMEOUT: Research timed out after '' @ string_of_int (Math_round (real_of_int elapsed / 1000 / 60))
       @ '' minutes. '' @ ''The research may still be running - response ID: '' @ responseId"

text \<open>
  \<open>pollForCompletion(responseId, timeoutMs, pollIntervalMs, startTime)\<close>. The loop has no
  bound of its own, so the surroundings are given as two scripts: the successive readings
  of \<open>Date.now()\<close> at the top of the loop, and what the successive calls of
  \<open>responses.retrieve\<close> do (resolve to a response, or throw). The result is the trace of
  effects and what the function does: \<open>Some (Inr r)\<close> returns \<open>r\<close>, \<open>Some (Inl e)\<close> throws
  \<open>e\<close>, and \<open>None\<close> says that the loop is still running when a script ends.
\<close>

fun pollForCompletion ::
  "string \<Rightarrow> int \<Rightarrow> int \<Rightarrow> int \<Rightarrow> int list \<Rightarrow> (thrown + response) list
    \<Rightarrow> action list \<times> (thrown + poll_result) option" where
  "pollForCompletion responseId timeoutMs pollIntervalMs startTime [] retrieves = ([], None)"
| "pollForCompletion responseId timeoutMs pollIntervalMs startTime (now # clock) retrieves =
     (let elapsed = now - startTime
      in if elapsed > timeoutMs
         then ([], Some (Inl (Error (timeout_message elapsed responseId) None None)))
         else (case retrieves of
                 [] \<Rightarrow> ([Retrieve responseId], None)
               | retrieved # rest \<Rightarrow>
                   (case (case retrieved of Inl error \<Rightarrow> Inl error | Inr response \<Rightarrow> poll_try response) of
                      Inr (Some result) \<Rightarrow> ([Retrieve responseId], Some (Inr result))
                    | Inr None \<Rightarrow>
                        (let later = pollForCompletion responseId timeoutMs pollIntervalMs startTime clock rest
                         in (Retrieve responseId # Sleep pollIntervalMs # fst later, snd later))
                    | Inl error \<Rightarrow>
                        if own_error error then ([Retrieve responseId], Some (Inl error))
                        else (let later = pollForCompletion responseId timeoutMs pollIntervalMs startTime clock rest
                              in (Retrieve responseId # Warn ''Research poll error, retrying''
                                    # Sleep pollIntervalMs # fst later, snd later)))))"

record DeepResearchOptions =
  query :: string
  opt_model :: "string option"
  opt_timeoutMs :: "int option"
  opt_pollIntervalMs :: "int option"

record DeepResearchResult =
  dr_text :: string
  dr_model :: string
  dr_responseId :: string
  dr_status :: string
  dr_durationMs :: int
  dr_usage :: "Usage option"
  dr_cost :: CostInfo

text \<open>The surroundings of one call of \<open>research\<close>: what the \<open>create\<close> call does, the
  clock at the start, at the top of each round of the loop and at the end, what the
  retrievals do, and the time stamp written into the ledger.\<close>

record research_env =
  created :: "thrown + response"
  startTime :: int
  poll_clock :: "int list"
  retrieved :: "(thrown + response) list"
  endTime :: int
  isoNow :: string

definition usage_promptTokens :: "Usage option \<Rightarrow> int" where
  "usage_promptTokens u = (case u of None \<Rightarrow> 0 | Some v \<Rightarrow> or_zero (u_promptTokens v))"

definition usage_completionTokens :: "Usage option \<Rightarrow> int" where
  "usage_completionTokens u = (case u of None \<Rightarrow> 0 | Some v \<Rightarrow> or_zero (u_completionTokens v))"

text \<open>
  \<open>research(options)\<close>: start the job, poll, and only when the poll has returned compute
  the cost and call \<open>trackCost\<close>. Nothing catches what \<open>startResearch\<close> or
  \<open>pollForCompletion\<close> throws.
\<close>

definition research ::
  "DeepResearchOptions \<Rightarrow> CostTracker \<times> disk \<Rightarrow> research_env
    \<Rightarrow> action list \<times> (CostTracker \<times> disk) \<times> (thrown + DeepResearchResult) option" where
  "research options st env =
     (let model = (case opt_model options of None \<Rightarrow> ''o3-deep-research'' | Some m \<Rightarrow> m);
          timeoutMs = (case opt_timeoutMs options of None \<Rightarrow> DEFAULT_TIMEOUT_MS | Some t \<Rightarrow> t);
          pollIntervalMs =
            (case opt_pollIntervalMs options of None \<Rightarrow> DEFAULT_POLL_INTERVAL_MS | Some t \<Rightarrow> t)
      in case startResearch (created env) of
           Inl error \<Rightarrow> ([Create model (query options)], st, Some (Inl error))
         | Inr responseId \<Rightarrow>
             (case pollForCompletion responseId timeoutMs pollIntervalMs (startTime env)
                     (poll_clock env) (retrieved env) of
                (trace, None) \<Rightarrow> (Create model (query options) # trace, st, None)
              | (trace, Some (Inl error)) \<Rightarrow> (Create model (query options) # trace, st, Some (Inl error))
              | (trace, Some (Inr result)) \<Rightarrow>
                  (let durationMs = endTime env - startTime env;
                       cost = calculateCost model (usage_promptTokens (pr_usage result))
                                (usage_completionTokens (pr_usage result));
                       st' = trackCost st
                               \<lparr>timestamp = isoNow env, entry_model = model,
                                operation = ''deep_research'',
                                entry_inputCost = inputCost cost, entry_outputCost = outputCost cost,
                                entry_totalCost = totalCost cost,
                                entry_estimated = (estimated cost \<or> pr_usage result = None),
                                promptTokens = (case pr_usage result of None \<Rightarrow> None
                                                | Some u \<Rightarrow> u_promptTokens u),
                                completionTokens = (case pr_usage result of None \<Rightarrow> None
                                                    | Some u \<Rightarrow> u_completionTokens u)\<rparr>
                   in (Create model (query options) # trace, st',
                       Some (Inr \<lparr>dr_text = pr_text result, dr_model = model,
                                  dr_responseId = responseId, dr_status = pr_status result,
                                  dr_durationMs = durationMs, dr_usage = pr_usage result,
                                  dr_cost = cost\<rparr>)))))"

section \<open>types.ts: models and reasoning efforts\<close>

definition TEXT_MODELS :: "string list" where
  "TEXT_MODELS = [''gpt-5.2'', ''gpt-5.2-pro'', ''gpt-5.2-chat-latest'']"

definition MODEL_IDS :: "(string \<times> string) list" where
  "MODEL_IDS =
     [(''gpt-5.2'', ''gpt-5.2''), (''gpt-5.2-pro'', ''gpt-5.2-pro''),
      (''gpt-5.2-chat-latest'', ''gpt-5.2-chat-latest''),
      (''o3-deep-research'', ''o3-deep-research''),
      (''o4-mini-deep-research'', ''o4-mini-deep-research'')]"

definition PRO_REASONING_EFFORTS :: "string list" where
  "PRO_REASONING_EFFORTS = [''medium'', ''high'', ''xhigh'']"

definition isValidProReasoningEffort :: "string \<Rightarrow> bool" where
  "isValidProReasoningEffort effort = (effort \<in> set PRO_REASONING_EFFORTS)"

definition STRUCTURED_OUTPUT_MODELS :: "string list" where
  "STRUCTURED_OUTPUT_MODELS = [''gpt-5.2'', ''gpt-5.2-chat-latest'']"

definition supportsStructuredOutput :: "string \<Rightarrow> bool" where
  "supportsStructuredOutput model = (model \<in> set STRUCTURED_OUTPUT_MODELS)"

section \<open>providers/text-provider.ts\<close>

record StructuredOutputSchema =
  schema_name :: string
  schema_description :: "string option"
  schema_body :: string
  schema_strict :: "bool option"

record TextGenerateOptions =
  prompt :: string
  systemPrompt :: "string option"
  tg_model :: "string option"
  reasoningEffort :: "string option"
  verbosity :: "string option"
  reasoningSummary :: "string option"
  maxOutputTokens :: "int option"
  temperature :: "real option"
  jsonSchema :: "StructuredOutputSchema option"

datatype request_input = Plain string | Messages "(string \<times> string) list"

record json_format =
  format_name :: string
  format_strict :: bool
  format_schema :: string
  format_description :: "string option"

text \<open>The request handed to \<open>responses.create\<close>. \<open>MODEL_IDS[model] || model\<close> is a
  property read too: it gives the mapped identifier, the given one, or an inherited
  value that is no string.\<close>

record request =
  req_model :: "string property"
  req_input :: request_input
  max_output_tokens :: int
  text_verbosity :: string
  text_format :: "json_format option"
  reasoning_effort :: "string option"
  reasoning_summary :: "string option"
  req_temperature :: "real option"

record GenerateResult =
  g_text :: string
  g_model :: string
  g_usage :: "Usage option"
  g_cost :: CostInfo

text \<open>One run of \<open>generate\<close>: the request it built (none when it threw before), how
  often the remote call was made, the ledger afterwards, and the value returned or the
  error thrown.\<close>

record generate_run =
  sent :: "request option"
  remote_calls :: nat
  ledger :: "CostTracker \<times> disk"
  result :: "thrown + GenerateResult"

text \<open>The three checks at the head of \<open>generate\<close>, in the order of the source, on the
  options after their defaults: the first that fails gives the error thrown.\<close>

definition generate_checks :: "string \<Rightarrow> string \<Rightarrow> real option \<Rightarrow> StructuredOutputSchema option \<Rightarrow> thrown option" where
  \<open>generate_checks model effort temp schema =
     (if model = ''gpt-5.2-pro'' \<and> \<not> isValidProReasoningEffort effort
      then Some (MCPError VALIDATION_ERROR
             (''gpt-5.2-pro only supports reasoning effort: medium, high, xhigh. Got: '' @ effort) None)
      else if temp \<noteq> None \<and> effort \<noteq> ''none''
      then Some (MCPError VALIDATION_ERROR
             (''Temperature is only allowed when reasoning_effort="none". '' @
              ''Either remove temperature or set reasoning_effort to "none".'') None)
      else if schema \<noteq> None \<and> \<not> supportsStructuredOutput model
      then Some (MCPError VALIDATION_ERROR
             (''Structured outputs (json_schema) are not supported by '' @ model @
              ''. Use gpt-5.2 or gpt-5.2-chat-latest.'') None)
      else None)\<close>

definition build_request ::
  "TextGenerateOptions \<Rightarrow> string \<Rightarrow> string \<Rightarrow> string \<Rightarrow> string \<Rightarrow> int \<Rightarrow> request" where
  "build_request options model effort verb summary maxTokens =
     \<lparr>req_model = (case get_property MODEL_IDS model of
                     Own v \<Rightarrow> if v = [] then Own model else Own v
                   | Inherited \<Rightarrow> Inherited
                   | Undefined \<Rightarrow> Own model),
      req_input = (case systemPrompt options of
                     None \<Rightarrow> Plain (prompt options)
                   | Some sp \<Rightarrow> if sp = [] then Plain (prompt options)
                               else Messages [(''developer'', sp), (''user'', prompt options)]),
      max_output_tokens = maxTokens,
      text_verbosity = verb,
      text_format = map_option
        (\<lambda>js. \<lparr>format_name = schema_name js, format_strict = (schema_strict js \<noteq> Some False),
                format_schema = schema_body js,
                format_description = (case schema_description js of
                                        None \<Rightarrow> None
                                      | Some d \<Rightarrow> if d = [] then None else Some d)\<rparr>)
        (jsonSchema options),
      reasoning_effort = (if effort \<noteq> ''none'' then Some effort else None),
      reasoning_summary = (if effort \<noteq> ''none'' \<and> summary \<noteq> ''off'' then Some summary else None),
      req_temperature = (if effort \<noteq> ''none'' then None else temperature options)\<rparr>"

text \<open>The \<open>catch\<close> block of \<open>generate\<close>: the error thrown to the caller.\<close>

definition generate_catch :: "thrown \<Rightarrow> thrown" where
  "generate_catch error =
     (let errorMessage = (case message_of error of
                            None \<Rightarrow> ''Unknown error during generation''
                          | Some m \<Rightarrow> if m = [] then ''Unknown error during generation'' else m)
      in if message_includes error ''API key'' \<or> message_includes error ''Incorrect API key''
            \<or> status_of error = Some 401
         then Error (''AUTH_ERROR'' @ '': '' @ ''Invalid or missing OpenAI API key'') None None
         else if message_includes error ''quota'' \<or> message_includes error ''rate''
            \<or> status_of error = Some 429
         then Error (''RATE_LIMIT'' @ '': '' @
                ''OpenAI API rate limit or quota exceeded. Please wait and retry.'') None None
         else if message_includes error ''content_policy'' \<or> message_includes error ''moderation''
         then Error (''SAFETY_BLOCK'' @ '': '' @ ''Content was blocked by OpenAI safety filters'')
                None None
         else if message_includes error ''TIMEOUT''
         then Error (''TIMEOUT'' @ '': '' @
                ''Request timed out. The prompt may be too complex or the service is slow.'')
                None None
         else Error (''GENERATION_ERROR'' @ '': '' @ errorMessage) None None)"

definition text_usage :: "raw_usage option \<Rightarrow> Usage option" where
  "text_usage rawUsage =
     map_option (\<lambda>u. \<lparr>u_promptTokens = input_tokens u, u_completionTokens = output_tokens u,
                       u_totalTokens = or_zero (input_tokens u) + or_zero (output_tokens u),
                       u_reasoningTokens = reasoning_tokens u\<rparr>) rawUsage"

text \<open>
  \<open>generate(options)\<close>. \<open>attempts k\<close> is what the \<open>k\<close>-th call of
  \<open>withTimeout(() => this.client.responses.create(requestOptions), ...)\<close> does: it
  resolves to a response or throws (the time-out error included). The checks come before
  the \<open>try\<close>, so their error is not rewritten by the \<open>catch\<close> block.
\<close>

definition generate ::
  "TextGenerateOptions \<Rightarrow> CostTracker \<times> disk \<Rightarrow> (nat \<Rightarrow> thrown + response) \<Rightarrow> string \<Rightarrow> generate_run" where
  "generate options st attempts now =
     (let model = (case tg_model options of None \<Rightarrow> ''gpt-5.2'' | Some m \<Rightarrow> m);
          effort = (case reasoningEffort options of None \<Rightarrow> ''none'' | Some e \<Rightarrow> e);
          verb = (case verbosity options of None \<Rightarrow> ''medium'' | Some v \<Rightarrow> v);
          summary = (case reasoningSummary options of None \<Rightarrow> ''off'' | Some r \<Rightarrow> r);
          maxTokens = (case maxOutputTokens options of None \<Rightarrow> 8192 | Some n \<Rightarrow> n)
      in case generate_checks model effort (temperature options) (jsonSchema options) of
           Some error \<Rightarrow> \<lparr>sent = None, remote_calls = 0, ledger = st, result = Inl error\<rparr>
         | None \<Rightarrow>
             (let requestOptions = build_request options model effort verb summary maxTokens;
                  run = withRetry attempts
                          \<lparr>maxRetries = Some 2, initialDelayMs = None, maxDelayMs = None,
                           backoffMultiplier = None,
                           retryableErrors = Some [''RATE_LIMIT'', ''429'', ''503'', ''502'',
                                                   ''ECONNRESET'', ''ETIMEDOUT'']\<rparr>
              in case outcome run of
                   Inl error \<Rightarrow>
                     \<lparr>sent = Some requestOptions, remote_calls = calls run, ledger = st,
                      result = Inl (generate_catch error)\<rparr>
                 | Inr response \<Rightarrow>
                     (let text = (case output_text response of None \<Rightarrow> [] | Some t \<Rightarrow> t);
                          usage = text_usage (resp_usage response);
                          cost = calculateCost model (usage_promptTokens usage)
                                   (usage_completionTokens usage);
                          st' = trackCost st
                                  \<lparr>timestamp = now, entry_model = model,
                                   operation = ''generate_text'',
                                   entry_inputCost = inputCost cost,
                                   entry_outputCost = outputCost cost,
                                   entry_totalCost = totalCost cost,
                                   entry_estimated = estimated cost,
                                   promptTokens = (case usage of None \<Rightarrow> None
                                                   | Some u \<Rightarrow> u_promptTokens u),
                                   completionTokens = (case usage of None \<Rightarrow> None
                                                       | Some u \<Rightarrow> u_completionTokens u)\<rparr>
                      in \<lparr>sent = Some requestOptions, remote_calls = calls run, ledger = st',
                          result = Inr \<lparr>g_text = text, g_model = model, g_usage = usage,
                                        g_cost = cost\<rparr>\<rparr>)))"

section \<open>index.ts: the \<open>check_research\<close> tool\<close>

text \<open>The members of a deep-research provider: its field and the methods the class
  \<open>OpenAIDeepResearchProvider\<close> declares.\<close>

definition OpenAIDeepResearchProvider_members :: "string list" where
  "OpenAIDeepResearchProvider_members =
     [''client'', ''research'', ''startResearch'', ''pollForCompletion'', ''sleep'', ''getModelInfo'']"

text \<open>
  What the handler answers: a tool result with its text and error flag, or, once the
  call \<open>deepResearchProvider.checkResearch(responseId)\<close> finds a member of that name,
  whatever that member does with the identifier.
\<close>

datatype tool_response = ToolResult string bool | Dispatched string

text \<open>
  The handler of \<open>check_research\<close> for a provider with the given members. Calling a
  member that does not exist throws a \<open>TypeError\<close>, which the handler's \<open>catch\<close> turns
  into an error result.
\<close>

definition check_research :: "string list \<Rightarrow> string option \<Rightarrow> tool_response" where
  "check_research members response_id =
     (case response_id of
        None \<Rightarrow> ToolResult ''Error: response_id is required'' True
      | Some responseId \<Rightarrow>
          if responseId = [] \<or> length (trim responseId) = 0
          then ToolResult ''Error: response_id is required'' True
          else if ''checkResearch'' \<in> set members \<or> ''checkResearch'' \<in> set Object_prototype_keys
          then Dispatched responseId
          else ToolResult (''Error: '' @ ''deepResearchProvider.checkResearch is not a function'') True)"

section \<open>Notions used to state the properties\<close>

text \<open>A transport-level error of the poll loop: a thrown value whose message does not
  start with one of the provider's own three prefixes.\<close>

definition transport_error :: "thrown \<Rightarrow> bool" where
  "transport_error e =
     (\<not> message_startsWith e ''TIMEOUT:'' \<and> \<not> message_startsWith e ''RESEARCH_FAILED:''
      \<and> \<not> message_startsWith e ''API_ERROR:'')"

text \<open>A retrieval after which the job is neither completed nor failed: a transport-level
  error, or a response with any other status.\<close>

fun keeps_polling :: "thrown + response \<Rightarrow> bool" where
  "keeps_polling (Inl e) = transport_error e"
| "keeps_polling (Inr r) = (resp_status r \<noteq> ''completed'' \<and> resp_status r \<noteq> ''failed'')"


text \<open>Options of \<open>generate\<close> with only the prompt given.\<close>

definition text_options :: "string \<Rightarrow> TextGenerateOptions" where
  "text_options p =
     \<lparr>prompt = p, systemPrompt = None, tg_model = None, reasoningEffort = None, verbosity = None,
      reasoningSummary = None, maxOutputTokens = None, temperature = None, jsonSchema = None\<rparr>"

text \<open>A run of \<open>generate\<close> that was rejected by validation: it threw an \<open>MCPError\<close> of
  category \<open>VALIDATION_ERROR\<close>, built no request and made no remote call.\<close>

definition validation_rejected :: "generate_run \<Rightarrow> bool" where
  "validation_rejected run =
     (sent run = None \<and> remote_calls run = 0
      \<and> (case result run of Inl e \<Rightarrow> category_of e = Some VALIDATION_ERROR | Inr _ \<Rightarrow> False))"

subsection \<open>Concrete jobs\<close>

definition job :: "string \<Rightarrow> string option \<Rightarrow> string option \<Rightarrow> response" where
  "job status text err =
     \<lparr>resp_id = Some ''resp_1'', resp_status = status, output_text = text, resp_usage = None,
      error_message = err\<rparr>"

definition research_options :: DeepResearchOptions where
  "research_options =
     \<lparr>query = ''state of fusion power'', opt_model = None, opt_timeoutMs = None,
      opt_pollIntervalMs = None\<rparr>"

definition empty_ledger :: "CostTracker \<times> disk" where
  "empty_ledger =
     (\<lparr>entries = [], costsFile = Some ''logs/costs.jsonl''\<rparr>,
      \<lparr>files = Map.empty, writable = (\<lambda>path. True)\<rparr>)"


definition slow_job :: research_env where
  "slow_job =
     \<lparr>created = Inr (job ''queued'' None None), startTime = 0, poll_clock = [1, 1800002],
      retrieved = [Inr (job ''in_progress'' None None), Inr (job ''in_progress'' None None)],
      endTime = 1800003, isoNow = ''2026-01-01T00:30:00.003Z''\<rparr>"


section \<open>The error classifier (C7)\<close>

text \<open>
  C7 at a failure whose message is \<open>moderation\<close>. The claim puts moderation signals under
  \<open>SAFETY_BLOCK\<close>, and so does the classification in the \<open>catch\<close> block of
  \<open>OpenAITextProvider.generate\<close>, which throws \<open>SAFETY_BLOCK\<close> for this failure.
  \<open>categorizeError\<close> tests \<open>moderation\<close> only in its content-policy rule and answers
  \<open>CONTENT_BLOCKED\<close>.
\<close>

theorem categorizeError_moderation:
  "category_of (categorizeError (Error ''moderation'' None None)) = Some CONTENT_BLOCKED
   \<and> category_of (categorizeError (Error ''moderation'' None None)) \<noteq> Some SAFETY_BLOCK
   \<and> generate_catch (Error ''moderation'' None None)
       = Error ''SAFETY_BLOCK: Content was blocked by OpenAI safety filters'' None None"
  by code_simp

text \<open>
  The order of the rules is the claimed one: the category \<open>categorizeError\<close> gives is that
  of the first rule of \<open>classifier_rules\<close> whose signal the failure shows, and
  \<open>API_ERROR\<close> when it shows none. The signals are those the source tests, the placement
  of \<open>moderation\<close> included.
\<close>

lemma categorizeError_first_match:
  "category_of (categorizeError e) = Some (first_match classifier_rules e)"
  by (simp add: categorizeError_def classifier_rules_def auth_signal_def rate_signal_def
      safety_signal_def content_signal_def timeout_signal_def str_includes_def Let_def)

text \<open>A message with both an authentication and a rate signal is an authentication
  failure.\<close>

lemma categorizeError_order:
  "category_of (categorizeError (Error ''rate limit for this API key'' None None)) = Some AUTH_ERROR"
  by code_simp

text \<open>On the other signal the two classifiers both test, \<open>content_policy\<close>, they agree.\<close>

lemma classifiers_agree_on_content_policy:
  "category_of (categorizeError (Error ''content_policy'' None None)) = Some SAFETY_BLOCK
   \<and> generate_catch (Error ''content_policy'' None None)
       = Error ''SAFETY_BLOCK: Content was blocked by OpenAI safety filters'' None None"
  by code_simp

section \<open>The ledger (C10)\<close>

text \<open>
  C10. Whatever the ledger holds, \<open>reset\<close> leaves no entry in memory, so that the summary
  counts 0 calls and a total cost of 0; the path of the cost log and the disk, hence the
  log file, are as before.
\<close>

theorem reset_clears_memory_only:
  "entries (fst (reset st)) = []
   \<and> callCount (getSummary (fst (reset st)) now) = 0
   \<and> sum_totalCost (getSummary (fst (reset st)) now) = Num 0
   \<and> costsFile (fst (reset st)) = costsFile (fst st)
   \<and> snd (reset st) = snd st"
  by (simp add: reset_def getSummary_def Math_round_def)

section \<open>The status check (C1)\<close>

text \<open>
  C1 speaks of an operation \<open>checkResearch\<close> of the deep-research provider. The class
  declares no member of that name, so the handler of \<open>check_research\<close> never reaches the
  provider: for every identifier it answers with an error result, and for a well-formed
  identifier the error is the \<open>TypeError\<close> of the call. No retrieval is made and no job
  state is reported.
\<close>

theorem check_research_not_dispatched:
  "''checkResearch'' \<notin> set OpenAIDeepResearchProvider_members
   \<and> (\<exists>msg. check_research OpenAIDeepResearchProvider_members response_id = ToolResult msg True)
   \<and> check_research OpenAIDeepResearchProvider_members (Some ''resp_abc123'')
       = ToolResult ''Error: deepResearchProvider.checkResearch is not a function'' True"
  by (simp add: check_research_def OpenAIDeepResearchProvider_members_def Object_prototype_keys_def
      trim_def is_space_def split: option.split)

section \<open>The cost model (C8)\<close>

text \<open>
  C8 at the model identifier \<open>constructor\<close>, which the price table does not hold: the
  property read finds the inherited \<open>Object.prototype.constructor\<close>, so the result is not
  marked as estimated and no fallback price is used; the costs are \<open>NaN\<close>.
\<close>

theorem calculateCost_inherited_key:
  "map_of OPENAI_PRICING ''constructor'' = None
   \<and> estimated (calculateCost ''constructor'' 1000 1000) = False
   \<and> effectivePricing ''constructor'' = None
   \<and> totalCost (calculateCost ''constructor'' 1000 1000) = NaN"
  by (simp add: calculateCost_def get_property_def effectivePricing_def OPENAI_PRICING_def
      Object_prototype_keys_def Let_def)

text \<open>For a model that is neither in the table nor the name of an inherited property the
  result is estimated and priced at 21 and 168 USD per million tokens.\<close>

lemma calculateCost_unknown_model:
  assumes "map_of OPENAI_PRICING model = None" and "model \<notin> set Object_prototype_keys"
  shows "estimated (calculateCost model p c)"
    and "effectivePricing model = Some \<lparr>input_price = 21, output_price = 168\<rparr>"
    and "inputCost (calculateCost model p c) = roundToMicro (Num (real_of_int p / 1000000 * 21))"
    and "outputCost (calculateCost model p c) = roundToMicro (Num (real_of_int c / 1000000 * 168))"
  using assms
  by (simp_all add: calculateCost_def get_property_def effectivePricing_def DEFAULT_PRICING_def Let_def)

text \<open>The fallback is the entry of \<open>gpt-5.2-pro\<close>, and no entry of the table is dearer.\<close>

lemma fallback_is_highest_tier:
  "map_of OPENAI_PRICING ''gpt-5.2-pro'' = Some DEFAULT_PRICING"
  "\<forall>(k, p) \<in> set OPENAI_PRICING.
     input_price p \<le> input_price DEFAULT_PRICING \<and> output_price p \<le> output_price DEFAULT_PRICING"
  by (simp_all add: OPENAI_PRICING_def DEFAULT_PRICING_def)

section \<open>The poll loop (C3, C4, C9)\<close>

lemma poll_in_progress_step:
  assumes "now - st \<le> tmo" and "resp_status r \<noteq> ''completed''" and "resp_status r \<noteq> ''failed''"
  shows "pollForCompletion rid tmo ivl st (now # clock) (Inr r # rest)
         = (Retrieve rid # Sleep ivl # fst (pollForCompletion rid tmo ivl st clock rest),
            snd (pollForCompletion rid tmo ivl st clock rest))"
  using assms by (simp add: poll_try_def Let_def)

lemma poll_transport_error_step:
  assumes "now - st \<le> tmo" and "\<not> own_error e"
  shows "pollForCompletion rid tmo ivl st (now # clock) (Inl e # rest)
         = (Retrieve rid # Warn ''Research poll error, retrying'' # Sleep ivl
              # fst (pollForCompletion rid tmo ivl st clock rest),
            snd (pollForCompletion rid tmo ivl st clock rest))"
  using assms by (simp add: Let_def)

lemma poll_completed_step:
  assumes "now - st \<le> tmo" and "resp_status r = ''completed''"
    and "output_text r = Some text" and "text \<noteq> []"
  shows "pollForCompletion rid tmo ivl st (now # clock) (Inr r # rest)
         = ([Retrieve rid], Some (Inr \<lparr>pr_text = text, pr_status = ''completed'',
                                       pr_usage = extract_usage (resp_usage r)\<rparr>))"
  using assms by (simp add: poll_try_def Let_def)

lemma poll_try_text: "poll_try r = Inr (Some res) \<Longrightarrow> pr_text res \<noteq> []"
  by (auto simp: poll_try_def Let_def split: if_splits option.splits)

lemma poll_success_text:
  "snd (pollForCompletion rid tmo ivl st clock rs) = Some (Inr res) \<Longrightarrow> pr_text res \<noteq> []"
proof (induction clock arbitrary: rs)
  case Nil
  then show ?case by simp
next
  case (Cons now clock)
  show ?case
  proof (cases rs)
    case Nil
    with Cons.prems show ?thesis by (simp add: Let_def split: if_splits)
  next
    case (Cons r rest)
    with Cons.prems Cons.IH[of rest] show ?thesis
      by (auto simp: Let_def dest: poll_try_text split: if_splits sum.splits option.splits)
  qed
qed

text \<open>
  C9. When a retrieval made before the deadline shows the job as completed with no output
  text, absent or empty, \<open>pollForCompletion\<close> throws the \<open>API_ERROR\<close> after that one
  retrieval; and whenever it returns a result, the text of the result is not empty.
\<close>

theorem poll_completed_without_text:
  "(now - st \<le> tmo \<and> resp_status r = ''completed'' \<and> (output_text r = None \<or> output_text r = Some [])
     \<longrightarrow> pollForCompletion rid tmo ivl st (now # clock) (Inr r # rest)
          = ([Retrieve rid],
             Some (Inl (Error ''API_ERROR: Research completed but no output text found'' None None))))
   \<and> (snd (pollForCompletion rid tmo ivl st clk rs) = Some (Inr res) \<longrightarrow> pr_text res \<noteq> [])"
  by (auto simp: poll_try_def own_error_def message_startsWith_def startsWith_def Let_def
      poll_success_text split: option.splits)

theorem poll_completed_without_text_witness:
  "pollForCompletion ''resp_1'' 1800000 10000 0 [1] [Inr (job ''completed'' None None)]
     = ([Retrieve ''resp_1''],
        Some (Inl (Error ''API_ERROR: Research completed but no output text found'' None None)))
   \<and> pollForCompletion ''resp_1'' 1800000 10000 0 [1] [Inr (job ''completed'' (Some []) None)]
     = ([Retrieve ''resp_1''],
        Some (Inl (Error ''API_ERROR: Research completed but no output text found'' None None)))
   \<and> snd (pollForCompletion ''resp_1'' 1800000 10000 0 [1] [Inr (job ''completed'' (Some ''report'') None)])
     = Some (Inr \<lparr>pr_text = ''report'', pr_status = ''completed'', pr_usage = None\<rparr>)
   \<and> pr_text \<lparr>pr_text = ''report'', pr_status = ''completed'', pr_usage = None\<rparr> \<noteq> []"
proof -
  have returned: "snd (pollForCompletion ''resp_1'' 1800000 10000 0 [1]
                     [Inr (job ''completed'' (Some ''report'') None)])
              = Some (Inr \<lparr>pr_text = ''report'', pr_status = ''completed'', pr_usage = None\<rparr>)"
    by (simp add: job_def poll_try_def extract_usage_def Let_def)
  show ?thesis
    using poll_completed_without_text
            [of 1 0 1800000 "job ''completed'' None None" "''resp_1''" 10000 "[]" "[]"
                "[1]" "[Inr (job ''completed'' (Some ''report'') None)]"
                "\<lparr>pr_text = ''report'', pr_status = ''completed'', pr_usage = None\<rparr>"]
          poll_completed_without_text
            [of 1 0 1800000 "job ''completed'' (Some []) None" "''resp_1''" 10000 "[]" "[]"
                "[1]" "[Inr (job ''completed'' (Some ''report'') None)]"
                "\<lparr>pr_text = ''report'', pr_status = ''completed'', pr_usage = None\<rparr>"]
          returned
    by (simp add: job_def)
qed

lemma poll_keeps_running:
  "\<forall>now \<in> set clock. now - st \<le> tmo \<Longrightarrow> \<forall>r \<in> set rs. keeps_polling r
   \<Longrightarrow> snd (pollForCompletion rid tmo ivl st clock rs) = None"
proof (induction clock arbitrary: rs)
  case Nil
  then show ?case by simp
next
  case (Cons now clock)
  show ?case
  proof (cases rs)
    case Nil
    with Cons.prems show ?thesis by (simp add: Let_def)
  next
    case (Cons r rest)
    have later: "snd (pollForCompletion rid tmo ivl st clock rest) = None"
      using Cons.IH[of rest] Cons.prems Cons by simp
    have now: "now - st \<le> tmo" using Cons.prems by simp
    show ?thesis
    proof (cases r)
      case (Inl e)
      then have "\<not> own_error e" using Cons.prems Cons by (simp add: own_error_def transport_error_def)
      then show ?thesis using poll_transport_error_step[OF now] later Cons Inl by simp
    next
      case (Inr resp)
      then have "resp_status resp \<noteq> ''completed''" "resp_status resp \<noteq> ''failed''"
        using Cons.prems Cons by simp_all
      then show ?thesis using poll_in_progress_step[OF now] later Cons Inr by simp
    qed
  qed
qed

text \<open>
  C3. (a) Three retrievals made before the deadline that show the job in progress, in
  progress and completed with its text: \<open>pollForCompletion\<close> returns the text after exactly
  these three retrievals, with one sleep of the poll interval after each of the first two.
  (b) A retrieval before the deadline that throws a transport-level error is followed by a
  warning in the log and a sleep of the same poll interval, and the loop goes on with the
  next round. (c) As long as no deadline has passed and every retrieval is a
  transport-level error or shows a job that is neither completed nor failed, the loop has
  not ended.
\<close>

theorem poll_loop_continues:
  "(t_a - st \<le> tmo \<and> t_b - st \<le> tmo \<and> t_c - st \<le> tmo
      \<and> resp_status r_a = ''in_progress'' \<and> resp_status r_b = ''in_progress''
      \<and> resp_status r_c = ''completed'' \<and> output_text r_c = Some report \<and> report \<noteq> []
    \<longrightarrow> pollForCompletion rid tmo ivl st (t_a # t_b # t_c # clock) (Inr r_a # Inr r_b # Inr r_c # rest)
        = ([Retrieve rid, Sleep ivl, Retrieve rid, Sleep ivl, Retrieve rid],
           Some (Inr \<lparr>pr_text = report, pr_status = ''completed'',
                      pr_usage = extract_usage (resp_usage r_c)\<rparr>)))
   \<and> (now - st \<le> tmo \<and> transport_error e
    \<longrightarrow> pollForCompletion rid tmo ivl st (now # clock) (Inl e # rest)
        = (Retrieve rid # Warn ''Research poll error, retrying'' # Sleep ivl
             # fst (pollForCompletion rid tmo ivl st clock rest),
           snd (pollForCompletion rid tmo ivl st clock rest)))
   \<and> ((\<forall>t \<in> set clk. t - st \<le> tmo) \<and> (\<forall>r \<in> set rs. keeps_polling r)
    \<longrightarrow> snd (pollForCompletion rid tmo ivl st clk rs) = None)"
proof (intro conjI impI)
  assume a: "t_a - st \<le> tmo \<and> t_b - st \<le> tmo \<and> t_c - st \<le> tmo
      \<and> resp_status r_a = ''in_progress'' \<and> resp_status r_b = ''in_progress''
      \<and> resp_status r_c = ''completed'' \<and> output_text r_c = Some report \<and> report \<noteq> []"
  then have s1: "resp_status r_a \<noteq> ''completed''" "resp_status r_a \<noteq> ''failed''"
    and s2: "resp_status r_b \<noteq> ''completed''" "resp_status r_b \<noteq> ''failed''" by simp_all
  have third: "pollForCompletion rid tmo ivl st (t_c # clock) (Inr r_c # rest)
        = ([Retrieve rid], Some (Inr \<lparr>pr_text = report, pr_status = ''completed'',
                                      pr_usage = extract_usage (resp_usage r_c)\<rparr>))"
    using a by (intro poll_completed_step) simp_all
  have second: "pollForCompletion rid tmo ivl st (t_b # t_c # clock) (Inr r_b # Inr r_c # rest)
        = ([Retrieve rid, Sleep ivl, Retrieve rid],
           Some (Inr \<lparr>pr_text = report, pr_status = ''completed'',
                      pr_usage = extract_usage (resp_usage r_c)\<rparr>))"
    using a poll_in_progress_step[OF _ s2, of t_b st tmo rid ivl "t_c # clock" "Inr r_c # rest"]
    by (simp only: third fst_conv snd_conv)
  show "pollForCompletion rid tmo ivl st (t_a # t_b # t_c # clock) (Inr r_a # Inr r_b # Inr r_c # rest)
        = ([Retrieve rid, Sleep ivl, Retrieve rid, Sleep ivl, Retrieve rid],
           Some (Inr \<lparr>pr_text = report, pr_status = ''completed'',
                      pr_usage = extract_usage (resp_usage r_c)\<rparr>))"
    using a poll_in_progress_step[OF _ s1, of t_a st tmo rid ivl "t_b # t_c # clock"
                                    "Inr r_b # Inr r_c # rest"]
    by (simp only: second fst_conv snd_conv)
next
  assume "now - st \<le> tmo \<and> transport_error e"
  then show "pollForCompletion rid tmo ivl st (now # clock) (Inl e # rest)
        = (Retrieve rid # Warn ''Research poll error, retrying'' # Sleep ivl
             # fst (pollForCompletion rid tmo ivl st clock rest),
           snd (pollForCompletion rid tmo ivl st clock rest))"
    by (intro poll_transport_error_step) (simp_all add: own_error_def transport_error_def)
next
  assume "(\<forall>t \<in> set clk. t - st \<le> tmo) \<and> (\<forall>r \<in> set rs. keeps_polling r)"
  then show "snd (pollForCompletion rid tmo ivl st clk rs) = None"
    using poll_keeps_running by blast
qed

theorem poll_loop_continues_witness:
  "pollForCompletion ''resp_1'' 1800000 10000 0 [1, 10002, 20003]
     [Inr (job ''in_progress'' None None), Inr (job ''in_progress'' None None),
      Inr (job ''completed'' (Some ''report'') None)]
     = ([Retrieve ''resp_1'', Sleep 10000, Retrieve ''resp_1'', Sleep 10000, Retrieve ''resp_1''],
        Some (Inr \<lparr>pr_text = ''report'', pr_status = ''completed'', pr_usage = None\<rparr>))
   \<and> pollForCompletion ''resp_1'' 1800000 10000 0 [1, 10002]
        [Inl (Error ''ECONNRESET'' None None), Inr (job ''completed'' (Some ''report'') None)]
     = ([Retrieve ''resp_1'', Warn ''Research poll error, retrying'', Sleep 10000, Retrieve ''resp_1''],
        Some (Inr \<lparr>pr_text = ''report'', pr_status = ''completed'', pr_usage = None\<rparr>))
   \<and> snd (pollForCompletion ''resp_1'' 1800000 10000 0 [1, 10002]
             [Inl (Error ''ECONNRESET'' None None), Inr (job ''in_progress'' None None)]) = None"
proof -
  have transport: "transport_error (Error ''ECONNRESET'' None None)"
    by (simp add: transport_error_def message_startsWith_def startsWith_def)
  have last: "pollForCompletion ''resp_1'' 1800000 10000 0 [10002]
                [Inr (job ''completed'' (Some ''report'') None)]
              = ([Retrieve ''resp_1''],
                 Some (Inr \<lparr>pr_text = ''report'', pr_status = ''completed'', pr_usage = None\<rparr>))"
    by (simp add: job_def poll_try_def extract_usage_def Let_def)
  show ?thesis
    using transport last
      poll_loop_continues
        [where t_a = 1 and t_b = 10002 and t_c = 20003 and st = 0 and tmo = 1800000
           and r_a = "job ''in_progress'' None None" and r_b = "job ''in_progress'' None None"
           and r_c = "job ''completed'' (Some ''report'') None" and report = "''report''"
           and rid = "''resp_1''" and ivl = 10000 and clock = "[]" and rest = "[]"
           and now = 1 and e = "Error ''ECONNRESET'' None None"
           and clk = "[1, 10002]"
           and rs = "[Inl (Error ''ECONNRESET'' None None), Inr (job ''in_progress'' None None)]"]
      poll_loop_continues
        [where t_a = 1 and t_b = 10002 and t_c = 20003 and st = 0 and tmo = 1800000
           and r_a = "job ''in_progress'' None None" and r_b = "job ''in_progress'' None None"
           and r_c = "job ''completed'' (Some ''report'') None" and report = "''report''"
           and rid = "''resp_1''" and ivl = 10000 and clock = "[10002]"
           and rest = "[Inr (job ''completed'' (Some ''report'') None)]"
           and now = 1 and e = "Error ''ECONNRESET'' None None"
           and clk = "[]" and rs = "[]"]
    by (simp add: job_def extract_usage_def)
qed

lemma timeout_message_has_id:
  "startsWith (timeout_message elapsed rid) ''TIMEOUT:'' \<and> str_includes (timeout_message elapsed rid) rid"
proof -
  have "timeout_message elapsed rid
        = (''TIMEOUT: Research timed out after ''
            @ string_of_int (Math_round (real_of_int elapsed / 1000 / 60))
            @ '' minutes. '' @ ''The research may still be running - response ID: '') @ rid"
    by (simp add: timeout_message_def)
  then have "sublist rid (timeout_message elapsed rid)"
    by (simp only: sublist_append_leftI)
  moreover have "prefix ''TIMEOUT:'' (timeout_message elapsed rid)"
    by (simp add: timeout_message_def)
  ultimately show ?thesis by (simp add: startsWith_def str_includes_def)
qed

lemma poll_times_out:
  assumes "\<forall>t \<in> set clock. t - st \<le> tmo" and "tmo < late - st"
    and "length resps = length clock" and "\<forall>r \<in> set resps. resp_status r = ''in_progress''"
  shows "pollForCompletion rid tmo ivl st (clock @ late # later) (map Inr resps @ rest)
         = (concat (replicate (length clock) [Retrieve rid, Sleep ivl]),
            Some (Inl (Error (timeout_message (late - st) rid) None None)))"
  using assms
proof (induction clock arbitrary: resps)
  case Nil
  then show ?case by (simp add: Let_def)
next
  case (Cons now clock)
  then obtain r rs where resps: "resps = r # rs" by (cases resps) auto
  have now: "now - st \<le> tmo" using Cons.prems by simp
  have st: "resp_status r \<noteq> ''completed''" "resp_status r \<noteq> ''failed''"
    using Cons.prems resps by simp_all
  have "pollForCompletion rid tmo ivl st (clock @ late # later) (map Inr rs @ rest)
         = (concat (replicate (length clock) [Retrieve rid, Sleep ivl]),
            Some (Inl (Error (timeout_message (late - st) rid) None None)))"
    using Cons.IH[of rs] Cons.prems resps by simp
  then show ?case using poll_in_progress_step[OF now st] resps by simp
qed

lemma research_poll_throws:
  assumes "startResearch (created env) = Inr rid"
    and "pollForCompletion rid
           (case opt_timeoutMs options of None \<Rightarrow> DEFAULT_TIMEOUT_MS | Some t \<Rightarrow> t)
           (case opt_pollIntervalMs options of None \<Rightarrow> DEFAULT_POLL_INTERVAL_MS | Some t \<Rightarrow> t)
           (startTime env) (poll_clock env) (retrieved env) = (trace, Some (Inl e))"
  shows "research options st env
         = (Create (case opt_model options of None \<Rightarrow> ''o3-deep-research'' | Some m \<Rightarrow> m)
              (query options) # trace, st, Some (Inl e))"
  using assms by (simp add: research_def Let_def)

text \<open>
  C4. When the rounds of the loop made before the deadline all show the job in progress
  and the clock then reads past the time-out, \<open>pollForCompletion\<close> throws an error whose
  message starts with \<open>TIMEOUT:\<close> and contains the identifier of the job. Up to there it
  has made one retrieval and one sleep per round and nothing else: no call cancels the
  job. \<open>research\<close> passes the error on unchanged.
\<close>

theorem poll_deadline:
  "((\<forall>t \<in> set clock. t - st \<le> tmo) \<and> tmo < late - st
      \<and> length resps = length clock \<and> (\<forall>r \<in> set resps. resp_status r = ''in_progress'')
    \<longrightarrow> pollForCompletion rid tmo ivl st (clock @ late # later) (map Inr resps @ rest)
          = (concat (replicate (length clock) [Retrieve rid, Sleep ivl]),
             Some (Inl (Error (timeout_message (late - st) rid) None None)))
        \<and> Cancel rid \<notin> set (fst (pollForCompletion rid tmo ivl st (clock @ late # later)
                                       (map Inr resps @ rest))))
   \<and> startsWith (timeout_message elapsed rid) ''TIMEOUT:''
   \<and> str_includes (timeout_message elapsed rid) rid
   \<and> (startResearch (created env) = Inr rid
      \<and> pollForCompletion rid
           (case opt_timeoutMs options of None \<Rightarrow> DEFAULT_TIMEOUT_MS | Some t \<Rightarrow> t)
           (case opt_pollIntervalMs options of None \<Rightarrow> DEFAULT_POLL_INTERVAL_MS | Some t \<Rightarrow> t)
           (startTime env) (poll_clock env) (retrieved env) = (trace, Some (Inl e))
    \<longrightarrow> research options lg env
          = (Create (case opt_model options of None \<Rightarrow> ''o3-deep-research'' | Some m \<Rightarrow> m)
               (query options) # trace, lg, Some (Inl e)))"
proof (intro conjI impI)
  assume a: "(\<forall>t \<in> set clock. t - st \<le> tmo) \<and> tmo < late - st
      \<and> length resps = length clock \<and> (\<forall>r \<in> set resps. resp_status r = ''in_progress'')"
  then show run: "pollForCompletion rid tmo ivl st (clock @ late # later) (map Inr resps @ rest)
          = (concat (replicate (length clock) [Retrieve rid, Sleep ivl]),
             Some (Inl (Error (timeout_message (late - st) rid) None None)))"
    by (intro poll_times_out) simp_all
  show "Cancel rid \<notin> set (fst (pollForCompletion rid tmo ivl st (clock @ late # later)
                                       (map Inr resps @ rest)))"
    by (auto simp: run)
next
  show "startsWith (timeout_message elapsed rid) ''TIMEOUT:''"
    using timeout_message_has_id by simp
  show "str_includes (timeout_message elapsed rid) rid"
    using timeout_message_has_id by simp
next
  assume "startResearch (created env) = Inr rid
      \<and> pollForCompletion rid
           (case opt_timeoutMs options of None \<Rightarrow> DEFAULT_TIMEOUT_MS | Some t \<Rightarrow> t)
           (case opt_pollIntervalMs options of None \<Rightarrow> DEFAULT_POLL_INTERVAL_MS | Some t \<Rightarrow> t)
           (startTime env) (poll_clock env) (retrieved env) = (trace, Some (Inl e))"
  then show "research options lg env
          = (Create (case opt_model options of None \<Rightarrow> ''o3-deep-research'' | Some m \<Rightarrow> m)
               (query options) # trace, lg, Some (Inl e))"
    using research_poll_throws[of env rid options trace e lg] by blast
qed

theorem poll_deadline_witness:
  "pollForCompletion ''resp_1'' 10000 10000 0 [1, 10000, 20000]
     [Inr (job ''in_progress'' None None), Inr (job ''in_progress'' None None)]
   = ([Retrieve ''resp_1'', Sleep 10000, Retrieve ''resp_1'', Sleep 10000],
      Some (Inl (Error (''TIMEOUT: Research timed out after 0 minutes. ''
                         @ ''The research may still be running - response ID: resp_1'') None None)))
   \<and> str_includes (''TIMEOUT: Research timed out after 0 minutes. ''
                     @ ''The research may still be running - response ID: resp_1'') ''resp_1''
   \<and> fst (research research_options empty_ledger slow_job)
       = [Create ''o3-deep-research'' ''state of fusion power'', Retrieve ''resp_1'', Sleep 10000]
   \<and> snd (snd (research research_options empty_ledger slow_job))
       = Some (Inl (Error (''TIMEOUT: Research timed out after 30 minutes. ''
                         @ ''The research may still be running - response ID: resp_1'') None None))"
proof -
  have m0: "timeout_message 20000 ''resp_1''
            = ''TIMEOUT: Research timed out after 0 minutes. ''
                @ ''The research may still be running - response ID: resp_1''"
    by code_simp
  have m30: "timeout_message 1800002 ''resp_1''
            = ''TIMEOUT: Research timed out after 30 minutes. ''
                @ ''The research may still be running - response ID: resp_1''"
    by code_simp
  have started: "startResearch (created slow_job) = Inr ''resp_1''"
    by (simp add: slow_job_def job_def startResearch_def)
  have polled: "pollForCompletion ''resp_1''
           (case opt_timeoutMs research_options of None \<Rightarrow> DEFAULT_TIMEOUT_MS | Some t \<Rightarrow> t)
           (case opt_pollIntervalMs research_options of None \<Rightarrow> DEFAULT_POLL_INTERVAL_MS | Some t \<Rightarrow> t)
           (startTime slow_job) (poll_clock slow_job) (retrieved slow_job)
         = ([Retrieve ''resp_1'', Sleep 10000],
            Some (Inl (Error (timeout_message 1800002 ''resp_1'') None None)))"
    by (simp add: slow_job_def job_def research_options_def DEFAULT_TIMEOUT_MS_def
        DEFAULT_POLL_INTERVAL_MS_def poll_try_def Let_def)
  show ?thesis
    using poll_deadline
      [where clock = "[1, 10000]" and st = 0 and tmo = 10000 and late = 20000 and later = "[]"
         and resps = "[job ''in_progress'' None None, job ''in_progress'' None None]"
         and rest = "[]" and rid = "''resp_1''" and ivl = 10000 and elapsed = 20000
         and env = slow_job and options = research_options and lg = empty_ledger
         and trace = "[Retrieve ''resp_1'', Sleep 10000]"
         and e = "Error (timeout_message 1800002 ''resp_1'') None None"]
      started polled
    by (simp add: job_def m0 m30 research_options_def)
qed

section \<open>The ledger of a deep-research call (C2)\<close>


lemma trackCost_disk:
  "snd (trackCost st e)
   = (case costsFile (fst st) of
        None \<Rightarrow> snd st
      | Some path \<Rightarrow>
          if writable (snd st) path
          then (snd st)\<lparr>files := (files (snd st))
                         (path \<mapsto> (case files (snd st) path of None \<Rightarrow> [] | Some ls \<Rightarrow> ls) @ [e])\<rparr>
          else snd st)"
  by (simp add: trackCost_def appendFileSync_def Let_def split: option.splits)








section \<open>The retry executor (C5)\<close>

lemma retry_throws:
  assumes "int n \<le> p_maxRetries opts" and "fn n = Inl e"
    and "int n = p_maxRetries opts \<or> \<not> isRetryable e (p_retryableErrors opts)"
  shows "withRetry_loop fn opts n d l = \<lparr>calls = 1, sleeps = [], outcome = Inl e\<rparr>"
  using assms by (subst withRetry_loop.simps) auto

lemma retry_again:
  assumes "int n < p_maxRetries opts" and "fn n = Inl e" and "isRetryable e (p_retryableErrors opts)"
  shows "withRetry_loop fn opts n d l
         = (let run = withRetry_loop fn opts (Suc n)
                        (min (d * p_backoffMultiplier opts) (p_maxDelayMs opts)) e
            in run\<lparr>calls := Suc (calls run), sleeps := d # sleeps run\<rparr>)"
  using assms by (subst withRetry_loop.simps) auto

lemma retry_returns:
  assumes "int n \<le> p_maxRetries opts" and "fn n = Inr v"
  shows "withRetry_loop fn opts n d l = \<lparr>calls = 1, sleeps = [], outcome = Inr v\<rparr>"
  using assms by (subst withRetry_loop.simps) auto

lemma withRetry_calls_pos:
  "0 \<le> p_maxRetries opts \<Longrightarrow> 0 < calls (withRetry_loop fn opts 0 d l)"
  by (subst withRetry_loop.simps) (auto simp: Let_def split: sum.splits)

text \<open>
  C5. With \<open>maxRetries = 2\<close>: when the first three invocations of the operation all throw
  an error that \<open>isRetryable\<close> accepts, the operation is invoked exactly 3 times, with two
  sleeps in between, and what the third invocation threw is thrown; when the first
  invocation throws an error that is not retryable, the operation is invoked exactly once,
  nothing is slept, and that error is thrown.
\<close>

theorem withRetry_attempts:
  "(maxRetries options = Some 2
      \<and> (\<forall>k\<le>2. \<exists>e. fn k = Inl e \<and> isRetryable e (p_retryableErrors (merge_options options)))
    \<longrightarrow> calls (withRetry fn options) = 3 \<and> outcome (withRetry fn options) = fn 2
        \<and> length (sleeps (withRetry fn options)) = 2)
   \<and> (maxRetries options = Some 2 \<and> fn 0 = Inl e
      \<and> \<not> isRetryable e (p_retryableErrors (merge_options options))
    \<longrightarrow> calls (withRetry fn options) = 1 \<and> outcome (withRetry fn options) = Inl e
        \<and> sleeps (withRetry fn options) = [])"
proof (intro conjI impI)
  define opts where "opts = merge_options options"
  {
    assume a: "maxRetries options = Some 2
      \<and> (\<forall>k\<le>2. \<exists>e. fn k = Inl e \<and> isRetryable e (p_retryableErrors (merge_options options)))"
    then have m: "p_maxRetries opts = 2" by (simp add: opts_def merge_options_def)
    from a have all: "\<And>k. k \<le> 2 \<Longrightarrow> \<exists>e. fn k = Inl e \<and> isRetryable e (p_retryableErrors opts)"
      by (simp add: opts_def)
    from all[of 0] obtain e0 where e0: "fn 0 = Inl e0" "isRetryable e0 (p_retryableErrors opts)"
      by auto
    from all[of "Suc 0"] obtain e1 where e1: "fn (Suc 0) = Inl e1" "isRetryable e1 (p_retryableErrors opts)"
      by auto
    from all[of 2] obtain e2 where e2: "fn 2 = Inl e2"
      by auto
    have r2: "withRetry_loop fn opts (Suc (Suc 0)) d l = \<lparr>calls = 1, sleeps = [], outcome = Inl e2\<rparr>" for d l
      using m e2 by (intro retry_throws) (simp_all add: numeral_2_eq_2)
    have r1: "withRetry_loop fn opts (Suc 0) d l
              = \<lparr>calls = 2, sleeps = [d], outcome = Inl e2\<rparr>" for d l
      using retry_again[of "Suc 0" opts fn e1 d l] m e1 by (simp add: r2)
    have r0: "withRetry_loop fn opts 0 d l
              = \<lparr>calls = 3, sleeps = [d, min (d * p_backoffMultiplier opts) (p_maxDelayMs opts)],
                 outcome = Inl e2\<rparr>" for d l
      using retry_again[of 0 opts fn e0 d l] m e0 by (simp add: r1)
    have run: "withRetry fn options
               = \<lparr>calls = 3,
                  sleeps = [p_initialDelayMs opts,
                            min (p_initialDelayMs opts * p_backoffMultiplier opts) (p_maxDelayMs opts)],
                  outcome = fn 2\<rparr>"
      by (simp add: withRetry_def Let_def opts_def[symmetric] r0 e2)
    show "calls (withRetry fn options) = 3" by (simp add: run)
    show "outcome (withRetry fn options) = fn 2" by (simp add: run)
    show "length (sleeps (withRetry fn options)) = 2" by (simp add: run)
  }
  {
    assume b: "maxRetries options = Some 2 \<and> fn 0 = Inl e
      \<and> \<not> isRetryable e (p_retryableErrors (merge_options options))"
    then have m: "p_maxRetries opts = 2" by (simp add: opts_def merge_options_def)
    have run: "withRetry fn options = \<lparr>calls = 1, sleeps = [], outcome = Inl e\<rparr>"
      unfolding withRetry_def Let_def opts_def[symmetric]
      using b m by (intro retry_throws) (simp_all add: opts_def)
    show "calls (withRetry fn options) = 1" by (simp add: run)
    show "outcome (withRetry fn options) = Inl e" by (simp add: run)
    show "sleeps (withRetry fn options) = []" by (simp add: run)
  }
qed

theorem withRetry_attempts_witness:
  "calls (withRetry (\<lambda>k. (Inl (Error ''503 Service Unavailable'' None None) :: thrown + unit))
            \<lparr>maxRetries = Some 2, initialDelayMs = None, maxDelayMs = None, backoffMultiplier = None,
             retryableErrors = None\<rparr>) = 3
   \<and> calls (withRetry (\<lambda>k. (Inl (Error ''AUTH_ERROR: Invalid key'' None None) :: thrown + unit))
            \<lparr>maxRetries = Some 2, initialDelayMs = None, maxDelayMs = None, backoffMultiplier = None,
             retryableErrors = None\<rparr>) = 1"
proof -
  let ?o = "\<lparr>maxRetries = Some 2, initialDelayMs = None, maxDelayMs = None, backoffMultiplier = None,
             retryableErrors = None\<rparr>"
  have pats: "p_retryableErrors (merge_options ?o) = [''RATE_LIMIT'', ''429'', ''503'', ''502'', ''ECONNRESET'', ''ETIMEDOUT'', ''ENOTFOUND'',
         ''temporarily unavailable'', ''too many requests'']"
    by (simp add: merge_options_def DEFAULT_RETRY_OPTIONS_def)
  have yes: "isRetryable (Error ''503 Service Unavailable'' None None) (p_retryableErrors (merge_options ?o))"
    unfolding pats by code_simp
  have no: "\<not> isRetryable (Error ''AUTH_ERROR: Invalid key'' None None) (p_retryableErrors (merge_options ?o))"
    unfolding pats by code_simp
  show ?thesis
    using withRetry_attempts[of ?o "\<lambda>k. (Inl (Error ''503 Service Unavailable'' None None) :: thrown + unit)"]
      withRetry_attempts[of ?o "\<lambda>k. (Inl (Error ''AUTH_ERROR: Invalid key'' None None) :: thrown + unit)" "Error ''AUTH_ERROR: Invalid key'' None None"]
      yes no
    by simp
qed

section \<open>Validation of text-generation options (C6)\<close>

lemma generate_checks_category:
  "generate_checks model effort temp schema = Some e \<Longrightarrow> category_of e = Some VALIDATION_ERROR"
  by (auto simp: generate_checks_def split: if_splits)

lemma generate_checks_None:
  "(generate_checks model effort temp schema = None)
   = (\<not> ((model = ''gpt-5.2-pro'' \<and> effort \<notin> {''medium'', ''high'', ''xhigh''})
         \<or> (temp \<noteq> None \<and> effort \<noteq> ''none'')
         \<or> (schema \<noteq> None \<and> model \<notin> {''gpt-5.2'', ''gpt-5.2-chat-latest''})))"
  by (simp add: generate_checks_def isValidProReasoningEffort_def PRO_REASONING_EFFORTS_def
      supportsStructuredOutput_def STRUCTURED_OUTPUT_MODELS_def)

lemma generate_when_rejected:
  assumes "generate_checks (case tg_model options of None \<Rightarrow> ''gpt-5.2'' | Some m \<Rightarrow> m)
        (case reasoningEffort options of None \<Rightarrow> ''none'' | Some e \<Rightarrow> e)
        (temperature options) (jsonSchema options) = Some e"
  shows "generate options st attempts now = \<lparr>sent = None, remote_calls = 0, ledger = st, result = Inl e\<rparr>"
  using assms by (simp add: generate_def Let_def)

lemma generate_when_accepted:
  assumes "generate_checks (case tg_model options of None \<Rightarrow> ''gpt-5.2'' | Some m \<Rightarrow> m)
        (case reasoningEffort options of None \<Rightarrow> ''none'' | Some e \<Rightarrow> e)
        (temperature options) (jsonSchema options) = None"
  shows "sent (generate options st attempts now) \<noteq> None"
    and "0 < remote_calls (generate options st attempts now)"
proof -
  let ?run = "withRetry attempts
                \<lparr>maxRetries = Some 2, initialDelayMs = None, maxDelayMs = None,
                 backoffMultiplier = None,
                 retryableErrors = Some [''RATE_LIMIT'', ''429'', ''503'', ''502'',
                                         ''ECONNRESET'', ''ETIMEDOUT'']\<rparr>"
  have pos: "0 < calls ?run"
    unfolding withRetry_def Let_def
    by (rule withRetry_calls_pos) (simp add: merge_options_def)
  show "sent (generate options st attempts now) \<noteq> None"
    using assms by (cases "outcome ?run") (simp_all add: generate_def Let_def)
  show "0 < remote_calls (generate options st attempts now)"
    using assms pos by (cases "outcome ?run") (simp_all add: generate_def Let_def)
qed

lemma generate_rejected_iff:
  "validation_rejected (generate options st attempts now)
   = (generate_checks (case tg_model options of None \<Rightarrow> ''gpt-5.2'' | Some m \<Rightarrow> m)
        (case reasoningEffort options of None \<Rightarrow> ''none'' | Some e \<Rightarrow> e)
        (temperature options) (jsonSchema options) \<noteq> None)"
proof (cases "generate_checks (case tg_model options of None \<Rightarrow> ''gpt-5.2'' | Some m \<Rightarrow> m)
        (case reasoningEffort options of None \<Rightarrow> ''none'' | Some e \<Rightarrow> e)
        (temperature options) (jsonSchema options)")
  case None
  then show ?thesis
    using generate_when_accepted(1)[OF None, of st attempts now]
    by (simp add: validation_rejected_def)
next
  case (Some e)
  then show ?thesis
    using generate_checks_category[OF Some]
    by (simp add: generate_when_rejected[OF Some] validation_rejected_def)
qed

text \<open>
  C6. \<open>generate\<close> is rejected by validation, that is, it throws an \<open>MCPError\<close> of
  category \<open>VALIDATION_ERROR\<close> with no request built and no remote call made, exactly for
  the options (after defaults) in which the model is \<open>gpt-5.2-pro\<close> with an effort other
  than medium, high or xhigh, or a temperature comes with an effort other than none, or a
  JSON schema comes with a model other than \<open>gpt-5.2\<close> and \<open>gpt-5.2-chat-latest\<close>. So
  pro with effort none is rejected, pro with effort high is accepted, effort low with
  temperature 0.7 is rejected, effort none with temperature 0.7 is accepted, and a schema
  for pro, which supports no structured output, is rejected, with the default effort and
  with a valid one. A call that is not rejected builds its request and makes at least one
  remote call.
\<close>

theorem generate_validation:
  "(validation_rejected (generate options st attempts now)
      = ((case tg_model options of None \<Rightarrow> ''gpt-5.2'' | Some m \<Rightarrow> m) = ''gpt-5.2-pro''
            \<and> (case reasoningEffort options of None \<Rightarrow> ''none'' | Some e \<Rightarrow> e)
                 \<notin> {''medium'', ''high'', ''xhigh''}
         \<or> temperature options \<noteq> None
            \<and> (case reasoningEffort options of None \<Rightarrow> ''none'' | Some e \<Rightarrow> e) \<noteq> ''none''
         \<or> jsonSchema options \<noteq> None
            \<and> (case tg_model options of None \<Rightarrow> ''gpt-5.2'' | Some m \<Rightarrow> m)
                 \<notin> {''gpt-5.2'', ''gpt-5.2-chat-latest''}))
   \<and> validation_rejected
        (generate ((text_options p)\<lparr>tg_model := Some ''gpt-5.2-pro'', reasoningEffort := Some ''none''\<rparr>)
           st attempts now)
   \<and> \<not> validation_rejected
        (generate ((text_options p)\<lparr>tg_model := Some ''gpt-5.2-pro'', reasoningEffort := Some ''high''\<rparr>)
           st attempts now)
   \<and> validation_rejected
        (generate ((text_options p)\<lparr>reasoningEffort := Some ''low'', temperature := Some 0.7\<rparr>)
           st attempts now)
   \<and> \<not> validation_rejected
        (generate ((text_options p)\<lparr>reasoningEffort := Some ''none'', temperature := Some 0.7\<rparr>)
           st attempts now)
   \<and> validation_rejected
        (generate ((text_options p)\<lparr>tg_model := Some ''gpt-5.2-pro'', jsonSchema := Some schema\<rparr>)
           st attempts now)
   \<and> validation_rejected
        (generate ((text_options p)\<lparr>tg_model := Some ''gpt-5.2-pro'', reasoningEffort := Some ''high'',
                                     jsonSchema := Some schema\<rparr>)
           st attempts now)
   \<and> (validation_rejected (generate options st attempts now)
       \<or> sent (generate options st attempts now) \<noteq> None
          \<and> 0 < remote_calls (generate options st attempts now))"
proof (intro conjI)
  show "validation_rejected (generate options st attempts now)
       \<or> sent (generate options st attempts now) \<noteq> None
          \<and> 0 < remote_calls (generate options st attempts now)"
    using generate_when_accepted[of options st attempts now]
    by (auto simp: generate_rejected_iff)
qed (simp_all add: generate_rejected_iff generate_checks_None[simplified] text_options_def
      generate_checks_def isValidProReasoningEffort_def PRO_REASONING_EFFORTS_def
      supportsStructuredOutput_def STRUCTURED_OUTPUT_MODELS_def)

theorem generate_validation_witness:
  "validation_rejected
     (generate ((text_options ''hello'')\<lparr>reasoningEffort := Some ''low'', temperature := Some 0.7\<rparr>)
        empty_ledger (\<lambda>k. Inr (job ''completed'' (Some ''hi'') None)) ''2026-01-01T00:00:00.000Z'')
   \<and> \<not> validation_rejected
     (generate ((text_options ''hello'')\<lparr>reasoningEffort := Some ''none'', temperature := Some 0.7\<rparr>)
        empty_ledger (\<lambda>k. Inr (job ''completed'' (Some ''hi'') None)) ''2026-01-01T00:00:00.000Z'')"
  using generate_validation
    [where options = "(text_options ''hello'')\<lparr>reasoningEffort := Some ''low'', temperature := Some 0.7\<rparr>"
       and p = "''hello''" and st = empty_ledger
       and attempts = "\<lambda>k. Inr (job ''completed'' (Some ''hi'') None)"
       and now = "''2026-01-01T00:00:00.000Z''"]
  by simp

end
